theory Spec2Isabelle
  imports Main
begin

section \<open>Data model\<close>

text \<open>
  A Python \<open>str\<close> is a sequence of Unicode code points. Where the code looks at
  characters or lengths (the validators, the exception messages) a string is the list of its
  code points (\<open>str\<close>); identifiers and free text, which the code only compares or copies,
  are plain \<open>string\<close>s.
\<close>

type_synonym str = "nat list"

text \<open>\<open>model/enum.py\<close>: the role of a user.\<close>

datatype Role = USER | LECTOR | CENTER_ADMIN

text \<open>
  The members of \<open>ErrorCode\<close> and the three exception classes that \<open>service/review.py\<close>
  imports and raises. An exception carries its code and its message.
\<close>

datatype ErrorCode = DATA_DOES_NOT_EXIST | NOT_ACCESSIBLE | ROW_ALREADY_EXIST | WRONG_DATE_RANGE

datatype exception =
    is_not_found: NotFoundException (code: ErrorCode) (message: str)
  | is_unauthorized: UnauthorizedException (code: ErrorCode) (message: str)
  | is_bad_request: BadRequestException (code: ErrorCode) (message: str)

text \<open>The messages of \<open>service/review.py\<close>, as code points (the source text is Korean).\<close>

definition msg_center_not_exist :: str where
  \<comment> \<open>"the center does not exist"\<close>
  "msg_center_not_exist = [54644, 45817, 32, 50516, 51109, 51060, 32, 51316, 51116, 54616,
     51648, 32, 50506, 49845, 45768, 45796, 46]"

definition msg_not_center_admin :: str where
  \<comment> \<open>"not the center's administrator"\<close>
  "msg_not_center_admin = [50516, 51109, 32, 44288, 47532, 51088, 44032, 32, 50500, 45785,
     45768, 45796, 46]"

definition msg_wrong_date_range :: str where
  \<comment> \<open>"wrong date range"\<close>
  "msg_wrong_date_range = [51096, 47803, 46108, 32, 45216, 51676, 32, 48276, 50948, 51077,
     45768, 45796, 46]"

definition msg_review_not_in_center :: str where
  \<comment> \<open>"the review does not exist in the center" (create)\<close>
  "msg_review_not_in_center = [54644, 45817, 32, 47532, 48624, 44032, 32, 50516, 51109, 50640,
     32, 51316, 51116, 54616, 51648, 32, 50506, 49845, 45768, 45796, 46]"

definition msg_answer_already_exist :: str where
  \<comment> \<open>"an answer has already been written"\<close>
  "msg_answer_already_exist = [51060, 48120, 32, 51089, 49457, 46108, 32, 45813, 48320, 51060,
     32, 51316, 51116, 54633, 45768, 45796, 46]"

definition msg_no_review_in_center :: str where
  \<comment> \<open>"the center has no such review" (update, delete)\<close>
  "msg_no_review_in_center = [50516, 51109, 50640, 32, 54644, 45817, 32, 47532, 48624, 44032,
     32, 51316, 51116, 54616, 51648, 32, 50506, 49845, 45768, 45796, 46]"

definition msg_answer_not_exist :: str where
  \<comment> \<open>"the review has no answer"\<close>
  "msg_answer_not_exist = [54644, 45817, 32, 47532, 48624, 50640, 32, 45813, 48320, 51060,
     32, 51316, 51116, 54616, 51648, 32, 50506, 49845, 45768, 45796, 46]"

text \<open>\<open>RequestUser(id, sns, role)\<close>, as the tests build it.\<close>

record request_user =
  rq_id :: string
  rq_sns :: string
  rq_role :: Role

text \<open>
  The entities. \<open>claon_admin/schema/center.py\<close> is not among the sources; the records hold
  the fields the service reads, named as the service and the specification name them:
  a center has an id and an owner reference, a review an id, a center reference, a tag list
  and an optional answer reference, a review answer a content and a review reference.
  Primary keys and timestamps that the ORM generates for an answer are left out.
\<close>

record center =
  c_id :: string
  c_owner_id :: string

record review_tag =
  t_word :: string

record review =
  r_id :: string
  r_center_id :: string
  r_answer_id :: "string option"
  r_tag :: "review_tag list"

record review_answer =
  a_content :: string
  a_review_id :: string

definition is_owner :: "center \<Rightarrow> string \<Rightarrow> bool" where
  \<comment> \<open>Modelled from the spec: \<open>Center.is_owner\<close> is not among the sources; the
      specification gives the check as \<open>center.owner_id == requester.id\<close>.\<close>
  "is_owner c user_id = (c_owner_id c = user_id)"

text \<open>A \<open>datetime.date\<close> is its proleptic Gregorian ordinal; \<open>(end - start).days\<close> is
  the difference of the ordinals.\<close>

datatype date = Date (toordinal: int)

definition days_between :: "date \<Rightarrow> date \<Rightarrow> int" where
  "days_between end' start = toordinal end' - toordinal start"

text \<open>The request and response DTOs of an answer.\<close>

record review_answer_request_dto =
  answer_content :: string

record review_answer_response_dto =
  resp_content :: string
  resp_review_id :: string

definition from_entity :: "review_answer \<Rightarrow> review_answer_response_dto" where
  \<comment> \<open>Modelled from the spec: \<open>ReviewAnswerResponseDto.from_entity\<close> is not among the
      sources; the DTO mirrors the row (the test reads \<open>result.review_id\<close>).\<close>
  "from_entity a = \<lparr>resp_content = a_content a, resp_review_id = a_review_id a\<rparr>"

section \<open>The repositories\<close>

text \<open>
  \<open>ReviewService.__init__\<close> takes its three repositories as arguments, and so does the
  model: a record of the repository methods the service calls, over any session state
  \<open>'s\<close>. A query reads the state; \<open>save\<close>, \<open>delete\<close> and the entity's \<open>update\<close>
  return the new state. \<open>'p\<close> is \<open>fastapi_pagination.Params\<close>, \<open>'pg\<close> the page a query
  returns.
\<close>

record ('s, 'p, 'pg) repositories =
  center_find_by_id :: "'s \<Rightarrow> string \<Rightarrow> center option"
  review_find_reviews_by_center ::
    "'s \<Rightarrow> 'p \<Rightarrow> string \<Rightarrow> date \<Rightarrow> date \<Rightarrow> string option \<Rightarrow> bool option \<Rightarrow> 'pg"
  review_find_by_id_and_center_id :: "'s \<Rightarrow> string \<Rightarrow> string \<Rightarrow> review option"
  review_find_all_by_center :: "'s \<Rightarrow> string \<Rightarrow> review list"
  answer_find_by_review_id :: "'s \<Rightarrow> string \<Rightarrow> review_answer option"
  answer_save :: "'s \<Rightarrow> review_answer \<Rightarrow> review_answer \<times> 's"
  answer_update :: "'s \<Rightarrow> review_answer \<Rightarrow> string \<Rightarrow> review_answer \<times> 's"
  answer_delete :: "'s \<Rightarrow> review_answer \<Rightarrow> 's"

section \<open>ReviewService\<close>

text \<open>
  Every operation returns its outcome (\<open>Inl\<close> the exception raised, \<open>Inr\<close> the value
  returned) together with the session state it leaves. The \<open>@transactional\<close> decorator and
  \<open>paginate\<close> are not among the sources: an operation is followed from its first statement
  to its \<open>return\<close> or \<open>raise\<close>, and \<open>paginate\<close> is a parameter of the listing.
\<close>

definition find_reviews_by_center ::
  "('s, 'p, 'pg) repositories \<Rightarrow> ('pg \<Rightarrow> 'out) \<Rightarrow> 's \<Rightarrow> request_user \<Rightarrow> 'p \<Rightarrow> string \<Rightarrow>
     date \<Rightarrow> date \<Rightarrow> string option \<Rightarrow> bool option \<Rightarrow> (exception + 'out) \<times> 's" where
  "find_reviews_by_center repo paginate session subject params center_id start end' tag
       is_answered =
     (case center_find_by_id repo session center_id of
        None \<Rightarrow> (Inl (NotFoundException DATA_DOES_NOT_EXIST msg_center_not_exist), session)
      | Some center \<Rightarrow>
          if \<not> is_owner center (rq_id subject)
          then (Inl (UnauthorizedException NOT_ACCESSIBLE msg_not_center_admin), session)
          else if days_between end' start > 365 \<or> days_between end' start < 0
          then (Inl (BadRequestException WRONG_DATE_RANGE msg_wrong_date_range), session)
          else
            let pages = review_find_reviews_by_center repo session params center_id start end'
                          tag is_answered
            in (Inr (paginate pages), session))"

definition create_review_answer ::
  "('s, 'p, 'pg) repositories \<Rightarrow> 's \<Rightarrow> request_user \<Rightarrow> review_answer_request_dto \<Rightarrow> string \<Rightarrow>
     string \<Rightarrow> (exception + review_answer_response_dto) \<times> 's" where
  "create_review_answer repo session subject dto center_id review_id =
     (case center_find_by_id repo session center_id of
        None \<Rightarrow> (Inl (NotFoundException DATA_DOES_NOT_EXIST msg_center_not_exist), session)
      | Some center \<Rightarrow>
          if \<not> is_owner center (rq_id subject)
          then (Inl (UnauthorizedException NOT_ACCESSIBLE msg_not_center_admin), session)
          else
            (case review_find_by_id_and_center_id repo session review_id (c_id center) of
               None \<Rightarrow>
                 (Inl (NotFoundException DATA_DOES_NOT_EXIST msg_review_not_in_center), session)
             | Some review \<Rightarrow>
                 (case answer_find_by_review_id repo session (r_id review) of
                    Some answer \<Rightarrow>
                      (Inl (NotFoundException ROW_ALREADY_EXIST msg_answer_already_exist),
                       session)
                  | None \<Rightarrow>
                      let new_answer =
                            \<lparr>a_content = answer_content dto, a_review_id = r_id review\<rparr>;
                          saved = answer_save repo session new_answer
                      in (Inr (from_entity (fst saved)), snd saved))))"

definition update_review_answer ::
  "('s, 'p, 'pg) repositories \<Rightarrow> 's \<Rightarrow> request_user \<Rightarrow> review_answer_request_dto \<Rightarrow> string \<Rightarrow>
     string \<Rightarrow> (exception + review_answer_response_dto) \<times> 's" where
  "update_review_answer repo session subject dto center_id review_id =
     (case center_find_by_id repo session center_id of
        None \<Rightarrow> (Inl (NotFoundException DATA_DOES_NOT_EXIST msg_center_not_exist), session)
      | Some center \<Rightarrow>
          if \<not> is_owner center (rq_id subject)
          then (Inl (UnauthorizedException NOT_ACCESSIBLE msg_not_center_admin), session)
          else
            (case review_find_by_id_and_center_id repo session review_id (c_id center) of
               None \<Rightarrow>
                 (Inl (NotFoundException DATA_DOES_NOT_EXIST msg_no_review_in_center), session)
             | Some review \<Rightarrow>
                 (case answer_find_by_review_id repo session (r_id review) of
                    None \<Rightarrow>
                      (Inl (NotFoundException DATA_DOES_NOT_EXIST msg_answer_not_exist), session)
                  | Some answer \<Rightarrow>
                      let updated = answer_update repo session answer (answer_content dto)
                      in (Inr (from_entity (fst updated)), snd updated))))"

definition delete_review_answer ::
  "('s, 'p, 'pg) repositories \<Rightarrow> 's \<Rightarrow> request_user \<Rightarrow> string \<Rightarrow> string \<Rightarrow>
     (exception + unit) \<times> 's" where
  "delete_review_answer repo session subject center_id review_id =
     (case center_find_by_id repo session center_id of
        None \<Rightarrow> (Inl (NotFoundException DATA_DOES_NOT_EXIST msg_center_not_exist), session)
      | Some center \<Rightarrow>
          if \<not> is_owner center (rq_id subject)
          then (Inl (UnauthorizedException NOT_ACCESSIBLE msg_not_center_admin), session)
          else
            (case review_find_by_id_and_center_id repo session review_id (c_id center) of
               None \<Rightarrow>
                 (Inl (NotFoundException DATA_DOES_NOT_EXIST msg_no_review_in_center), session)
             | Some review \<Rightarrow>
                 (case answer_find_by_review_id repo session (r_id review) of
                    None \<Rightarrow>
                      (Inl (NotFoundException DATA_DOES_NOT_EXIST msg_answer_not_exist), session)
                  | Some answer \<Rightarrow> (Inr (), answer_delete repo session answer))))"

text \<open>
  The summary. The loop appends to the two lists; \<open>sum(tags, [])\<close> concatenates the tag
  lists from the left; a \<open>Counter\<close> is a dictionary, kept here as the list of its items in
  insertion order, built by adding the elements one at a time.
\<close>

fun collect :: "review list \<Rightarrow> bool list \<Rightarrow> review_tag list list \<Rightarrow>
    bool list \<times> review_tag list list" where
  "collect [] is_answer tags = (is_answer, tags)"
| "collect (review # reviews) is_answer tags =
     collect reviews (is_answer @ [if r_answer_id review = None then False else True])
       (tags @ [r_tag review])"

definition sum_lists :: "'a list list \<Rightarrow> 'a list" where
  "sum_lists xss = foldl (@) [] xss"

fun counter_add :: "'a \<Rightarrow> ('a \<times> nat) list \<Rightarrow> ('a \<times> nat) list" where
  "counter_add x [] = [(x, 1)]"
| "counter_add x ((k, n) # kvs) =
     (if k = x then (k, n + 1) # kvs else (k, n) # counter_add x kvs)"

definition Counter :: "'a list \<Rightarrow> ('a \<times> nat) list" where
  "Counter xs = foldl (\<lambda>c x. counter_add x c) [] xs"

definition counter_get :: "('a \<times> nat) list \<Rightarrow> 'a \<Rightarrow> nat" where
  \<comment> \<open>\<open>Counter.__getitem__\<close>: a missing key counts 0.\<close>
  "counter_get c k = (case map_of c k of None \<Rightarrow> 0 | Some n \<Rightarrow> n)"

record review_tag_dto =
  dto_tag :: string
  dto_count :: nat

record review_summary_response_dto =
  sum_center_id :: string
  count_answered :: nat
  count_not_answered :: nat
  review_by_tag :: "review_tag_dto list"

definition summary_from_entity ::
  "center \<Rightarrow> (bool \<times> nat) list \<Rightarrow> review_tag_dto list \<Rightarrow> review_summary_response_dto" where
  \<comment> \<open>Modelled from the spec: \<open>ReviewSummaryResponseDto.from_entity\<close> is not among the
      sources; the DTO holds the counts of answered and of unanswered reviews, read from the
      counter it is given, and the tag tallies.\<close>
  "summary_from_entity c counts tags =
     \<lparr>sum_center_id = c_id c, count_answered = counter_get counts True,
      count_not_answered = counter_get counts False, review_by_tag = tags\<rparr>"

definition find_reviews_summary_by_center ::
  "('s, 'p, 'pg) repositories \<Rightarrow> 's \<Rightarrow> request_user \<Rightarrow> string \<Rightarrow>
     (exception + review_summary_response_dto) \<times> 's" where
  "find_reviews_summary_by_center repo session subject center_id =
     (case center_find_by_id repo session center_id of
        None \<Rightarrow> (Inl (NotFoundException DATA_DOES_NOT_EXIST msg_center_not_exist), session)
      | Some center \<Rightarrow>
          if \<not> is_owner center (rq_id subject)
          then (Inl (UnauthorizedException NOT_ACCESSIBLE msg_not_center_admin), session)
          else
            let reviews = review_find_all_by_center repo session (c_id center);
                (is_answer, tags) = collect reviews [] [];
                tag_list = map t_word (sum_lists tags)
            in (Inr (summary_from_entity center (Counter is_answer)
                       (map (\<lambda>(tag, count). \<lparr>dto_tag = tag, dto_count = count\<rparr>)
                          (Counter tag_list))),
                session))"

section \<open>A relational store\<close>

text \<open>
  The tables the repositories work on, and the repositories over them. A lookup returns the
  first matching row, \<open>save\<close> inserts the row it is given, \<open>delete\<close> removes that row and
  \<open>update\<close> replaces its content. The paged query of reviews is a parameter.
\<close>

record db =
  centers :: "center list"
  reviews :: "review list"
  answers :: "review_answer list"

fun replace1 :: "'a \<Rightarrow> 'a \<Rightarrow> 'a list \<Rightarrow> 'a list" where
  "replace1 a b [] = []"
| "replace1 a b (x # xs) = (if x = a then b # xs else x # replace1 a b xs)"

definition db_repo ::
  "(db \<Rightarrow> 'p \<Rightarrow> string \<Rightarrow> date \<Rightarrow> date \<Rightarrow> string option \<Rightarrow> bool option \<Rightarrow> 'pg) \<Rightarrow>
     (db, 'p, 'pg) repositories" where
  \<comment> \<open>Modelled from the spec: the repositories of \<open>claon_admin/schema/center.py\<close> are not
      among the sources; they are read off the method names and the specification's
      relational schema (a review answer refers to its review).\<close>
  "db_repo query =
     \<lparr>center_find_by_id = (\<lambda>s i. find (\<lambda>c. c_id c = i) (centers s)),
      review_find_reviews_by_center = query,
      review_find_by_id_and_center_id =
        (\<lambda>s i cid. find (\<lambda>r. r_id r = i \<and> r_center_id r = cid) (reviews s)),
      review_find_all_by_center = (\<lambda>s cid. filter (\<lambda>r. r_center_id r = cid) (reviews s)),
      answer_find_by_review_id = (\<lambda>s i. find (\<lambda>a. a_review_id a = i) (answers s)),
      answer_save = (\<lambda>s a. (a, s\<lparr>answers := answers s @ [a]\<rparr>)),
      answer_update =
        (\<lambda>s a content.
           (a\<lparr>a_content := content\<rparr>,
            s\<lparr>answers := replace1 a (a\<lparr>a_content := content\<rparr>) (answers s)\<rparr>)),
      answer_delete = (\<lambda>s a. s\<lparr>answers := remove1 a (answers s)\<rparr>)\<rparr>"

definition at_most_one_answer :: "db \<Rightarrow> bool" where
  \<comment> \<open>no two answer rows refer to the same review\<close>
  "at_most_one_answer s = distinct (map a_review_id (answers s))"

text \<open>One call of the service, and the state it leaves.\<close>

datatype 'p call =
    FindReviews request_user 'p string date date "string option" "bool option"
  | CreateAnswer request_user review_answer_request_dto string string
  | UpdateAnswer request_user review_answer_request_dto string string
  | DeleteAnswer request_user string string
  | FindSummary request_user string

fun state_after :: "('s, 'p, 'pg) repositories \<Rightarrow> 's \<Rightarrow> 'p call \<Rightarrow> 's" where
  "state_after repo s (FindReviews subject params center_id start end' tag is_answered) =
     snd (find_reviews_by_center repo (\<lambda>pages. pages) s subject params center_id start end'
            tag is_answered)"
| "state_after repo s (CreateAnswer subject dto center_id review_id) =
     snd (create_review_answer repo s subject dto center_id review_id)"
| "state_after repo s (UpdateAnswer subject dto center_id review_id) =
     snd (update_review_answer repo s subject dto center_id review_id)"
| "state_after repo s (DeleteAnswer subject center_id review_id) =
     snd (delete_review_answer repo s subject center_id review_id)"
| "state_after repo s (FindSummary subject center_id) =
     snd (find_reviews_summary_by_center repo s subject center_id)"

section \<open>The request validators of model/center.py\<close>

text \<open>
  A validator returns the value of the field or raises. \<open>ValueError\<close> is what the
  validators raise themselves; \<open>IndexError\<close> is what indexing an empty string raises.
\<close>

datatype validation_error = ValueError str | IndexError

definition msg_day_of_week :: str where
  \<comment> \<open>"enter one of the days of the week"\<close>
  "msg_day_of_week =
     [50836, 51068, 51008, 32, 50900, 44, 32, 54868, 44, 32, 49688, 44, 32, 47785, 44,
     32, 44552, 44, 32, 53664, 44, 32, 51068, 32, 51473, 32, 54616, 45208, 47196,
     32, 51077, 47141, 32, 54644, 51452, 49464, 50836, 46]"

definition msg_time_format :: str where
  \<comment> \<open>"enter a valid time format"\<close>
  "msg_time_format =
     [50732, 48148, 47480, 32, 49884, 44036, 32, 54805, 49885, 51004, 47196, 32, 51077,
     47141, 32, 54644, 51452, 49464, 50836, 46]"

definition msg_fee_name :: str where
  \<comment> \<open>"the name has 2 to 50 characters"\<close>
  "msg_fee_name =
     [51060, 47492, 51008, 32, 50, 51088, 32, 51060, 49345, 32, 53, 48, 51088, 32,
     51060, 54616, 47196, 32, 51077, 47141, 32, 54644, 51452, 49464, 50836, 46]"

definition msg_fee_price :: str where
  \<comment> \<open>"the price is 0 or more"\<close>
  "msg_fee_price =
     [44032, 44201, 51008, 32, 48, 50896, 32, 51060, 49345, 51004, 47196, 32, 51077,
     47141, 32, 54644, 51452, 49464, 50836, 46]"

definition msg_fee_count :: str where
  \<comment> \<open>"the count is 0 or more"\<close>
  "msg_fee_count =
     [54943, 49688, 45716, 32, 48, 54924, 32, 51060, 49345, 51004, 47196, 32, 51077,
     47141, 32, 54644, 51452, 49464, 50836, 46]"

definition msg_youtube_code :: str where
  \<comment> \<open>"the channel code starts with @"\<close>
  "msg_youtube_code =
     [50976, 53916, 48652, 32, 52292, 45328, 32, 53076, 46300, 45716, 32, 64, 47196, 32,
     49884, 51089, 32, 54644, 51452, 49464, 50836, 46]"

definition day_values :: "str list" where
  \<comment> \<open>Monday to Sunday, and "public holiday"\<close>
  "day_values = [[50900], [54868], [49688], [47785], [44552], [53664], [51068],
     [44277, 55092, 51068]]"

definition validate_day_of_week :: "str \<Rightarrow> validation_error + str" where
  "validate_day_of_week value =
     (if value \<notin> set day_values then Inl (ValueError msg_day_of_week) else Inr value)"

text \<open>
  \<open>re.match(r'^(0\d|1\d|2[0-3]):(0[1-9]|[0-5]\d)$', value)\<close>. Every alternative
  takes two characters, so a match is decided position by position. On a \<open>str\<close> pattern
  \<open>\d\<close> is any Unicode decimal digit: the ASCII digits and the digits of other scripts,
  whose table belongs to the interpreter and is the parameter \<open>nd\<close>. \<open>$\<close> matches at
  the end of the string and before a newline that ends the string.
\<close>

definition is_digit :: "(nat \<Rightarrow> bool) \<Rightarrow> nat \<Rightarrow> bool" where
  "is_digit nd c = ((48 \<le> c \<and> c \<le> 57) \<or> nd c)"

fun time_re_match :: "(nat \<Rightarrow> bool) \<Rightarrow> str \<Rightarrow> bool" where
  "time_re_match nd (h1 # h2 # c # m1 # m2 # rest) =
     (((h1 = 48 \<and> is_digit nd h2) \<or> (h1 = 49 \<and> is_digit nd h2) \<or>
       (h1 = 50 \<and> 48 \<le> h2 \<and> h2 \<le> 51)) \<and>
      c = 58 \<and>
      ((m1 = 48 \<and> 49 \<le> m2 \<and> m2 \<le> 57) \<or> (48 \<le> m1 \<and> m1 \<le> 53 \<and> is_digit nd m2)) \<and>
      (rest = [] \<or> rest = [10]))"
| "time_re_match nd _ = False"

definition validate_start_time :: "(nat \<Rightarrow> bool) \<Rightarrow> str \<Rightarrow> validation_error + str" where
  "validate_start_time nd value =
     (if \<not> time_re_match nd value then Inl (ValueError msg_time_format) else Inr value)"

definition validate_end_time :: "(nat \<Rightarrow> bool) \<Rightarrow> str \<Rightarrow> validation_error + str" where
  "validate_end_time nd value =
     (if \<not> time_re_match nd value then Inl (ValueError msg_time_format) else Inr value)"

text \<open>
  Building a DTO runs the validator of every field, in the order of the fields, and
  collects what they raise: the DTO exists when none raised, and holds what the validators
  returned.
\<close>

definition raised :: "validation_error + 'a \<Rightarrow> validation_error list" where
  "raised r = (case r of Inl e \<Rightarrow> [e] | Inr v \<Rightarrow> [])"

record center_operating_time_dto =
  day_of_week :: str
  start_time :: str
  end_time :: str

definition CenterOperatingTimeDto ::
  "(nat \<Rightarrow> bool) \<Rightarrow> str \<Rightarrow> str \<Rightarrow> str \<Rightarrow> validation_error list + center_operating_time_dto" where
  "CenterOperatingTimeDto nd d s e =
     (case (validate_day_of_week d, validate_start_time nd s, validate_end_time nd e) of
        (Inr d', Inr s', Inr e') \<Rightarrow> Inr \<lparr>day_of_week = d', start_time = s', end_time = e'\<rparr>
      | (rd, rs, re) \<Rightarrow> Inl (raised rd @ raised rs @ raised re))"

definition validate_fee_name :: "str \<Rightarrow> validation_error + str" where
  "validate_fee_name value =
     (if length value < 2 \<or> length value > 50 then Inl (ValueError msg_fee_name)
      else Inr value)"

definition validate_price :: "int \<Rightarrow> validation_error + int" where
  "validate_price value = (if value < 0 then Inl (ValueError msg_fee_price) else Inr value)"

definition validate_count :: "int \<Rightarrow> validation_error + int" where
  "validate_count value = (if value < 0 then Inl (ValueError msg_fee_count) else Inr value)"

record center_fee_dto =
  fee_name :: str
  fee_price :: int
  fee_count :: int

definition CenterFeeDto :: "str \<Rightarrow> int \<Rightarrow> int \<Rightarrow> validation_error list + center_fee_dto" where
  "CenterFeeDto n p c =
     (case (validate_fee_name n, validate_price p, validate_count c) of
        (Inr n', Inr p', Inr c') \<Rightarrow> Inr \<lparr>fee_name = n', fee_price = p', fee_count = c'\<rparr>
      | (rn, rp, rc) \<Rightarrow> Inl (raised rn @ raised rp @ raised rc))"

text \<open>
  The time of day the specification means: two ASCII digits, a colon, two ASCII digits,
  the hour from 00 to 23 and the minute from 00 to 59, and nothing else.
\<close>

fun is_hhmm :: "str \<Rightarrow> bool" where
  "is_hhmm [h1, h2, c, m1, m2] =
     (48 \<le> h1 \<and> h1 \<le> 57 \<and> 48 \<le> h2 \<and> h2 \<le> 57 \<and> c = 58 \<and>
      48 \<le> m1 \<and> m1 \<le> 57 \<and> 48 \<le> m2 \<and> m2 \<le> 57 \<and>
      (h1 - 48) * 10 + (h2 - 48) \<le> 23 \<and> (m1 - 48) * 10 + (m2 - 48) \<le> 59)"
| "is_hhmm _ = False"

text \<open>
  \<open>CenterRequestDto.validate_youtube_code\<close>. \<open>value[0]\<close> raises \<open>IndexError\<close> on the
  empty string; a value that passes the check falls off the end of the function, which
  returns \<open>None\<close>.
\<close>

definition validate_youtube_code :: "str option \<Rightarrow> validation_error + str option" where
  "validate_youtube_code value =
     (case value of
        None \<Rightarrow> Inr value
      | Some [] \<Rightarrow> Inl IndexError
      | Some (c # cs) \<Rightarrow> if c \<noteq> 64 then Inl (ValueError msg_youtube_code) else Inr None)"

section \<open>Fixtures\<close>

text \<open>The rows of the tests: a center and its administrator, an answered review with its
  answer and a review without one, and a user who does not own the center.\<close>

definition center_fixture :: center where
  "center_fixture = \<lparr>c_id = ''center'', c_owner_id = ''admin''\<rparr>"

definition review_fixture :: review where
  "review_fixture = \<lparr>r_id = ''review'', r_center_id = ''center'', r_answer_id = Some ''answer'',
     r_tag = [\<lparr>t_word = ''tag''\<rparr>, \<lparr>t_word = ''tag2''\<rparr>]\<rparr>"

definition not_answered_review_fixture :: review where
  "not_answered_review_fixture = \<lparr>r_id = ''review2'', r_center_id = ''center'',
     r_answer_id = None, r_tag = [\<lparr>t_word = ''tag''\<rparr>]\<rparr>"

definition review_answer_fixture :: review_answer where
  "review_answer_fixture = \<lparr>a_content = ''answer'', a_review_id = ''review''\<rparr>"

definition db_fixture :: db where
  "db_fixture = \<lparr>centers = [center_fixture],
     reviews = [review_fixture, not_answered_review_fixture],
     answers = [review_answer_fixture]\<rparr>"

definition query_fixture ::
  "db \<Rightarrow> unit \<Rightarrow> string \<Rightarrow> date \<Rightarrow> date \<Rightarrow> string option \<Rightarrow> bool option \<Rightarrow> review list" where
  "query_fixture s params center_id start end' tag is_answered =
     filter (\<lambda>r. r_center_id r = center_id) (reviews s)"

definition admin_user :: request_user where
  "admin_user = \<lparr>rq_id = ''admin'', rq_sns = ''test@claon.com'', rq_role = CENTER_ADMIN\<rparr>"

definition other_user :: request_user where
  "other_user = \<lparr>rq_id = ''123456'', rq_sns = ''test@claon.com'', rq_role = CENTER_ADMIN\<rparr>"

section \<open>Unfolding the service and the store\<close>

lemmas fixture_defs = center_fixture_def review_fixture_def not_answered_review_fixture_def
  review_answer_fixture_def db_fixture_def query_fixture_def admin_user_def other_user_def

lemmas service_defs = find_reviews_by_center_def create_review_answer_def
  update_review_answer_def delete_review_answer_def find_reviews_summary_by_center_def

lemma db_repo_simps:
  "center_find_by_id (db_repo q) = (\<lambda>s i. find (\<lambda>c. c_id c = i) (centers s))"
  "review_find_reviews_by_center (db_repo q) = q"
  "review_find_by_id_and_center_id (db_repo q) =
     (\<lambda>s i cid. find (\<lambda>r. r_id r = i \<and> r_center_id r = cid) (reviews s))"
  "review_find_all_by_center (db_repo q) =
     (\<lambda>s cid. filter (\<lambda>r. r_center_id r = cid) (reviews s))"
  "answer_find_by_review_id (db_repo q) = (\<lambda>s i. find (\<lambda>a. a_review_id a = i) (answers s))"
  "answer_save (db_repo q) = (\<lambda>s a. (a, s\<lparr>answers := answers s @ [a]\<rparr>))"
  "answer_update (db_repo q) =
     (\<lambda>s a content.
        (a\<lparr>a_content := content\<rparr>,
         s\<lparr>answers := replace1 a (a\<lparr>a_content := content\<rparr>) (answers s)\<rparr>))"
  "answer_delete (db_repo q) = (\<lambda>s a. s\<lparr>answers := remove1 a (answers s)\<rparr>)"
  by (simp_all add: db_repo_def)

section \<open>The ownership check\<close>

text \<open>
  C3. In each of the five operations, when the center exists and the id of the requesting
  subject is not the id of the center's owner, the operation raises the unauthorized
  exception and leaves the session as it was, whatever the other repository methods
  would have answered: none of them is consulted.
\<close>

theorem non_owner_is_unauthorized:
  assumes "center_find_by_id repo s center_id = Some c"
    and "c_owner_id c \<noteq> rq_id subject"
  shows "find_reviews_by_center repo paginate s subject params center_id start end' tag
             is_answered
           = (Inl (UnauthorizedException NOT_ACCESSIBLE msg_not_center_admin), s) \<and>
         create_review_answer repo s subject dto center_id review_id
           = (Inl (UnauthorizedException NOT_ACCESSIBLE msg_not_center_admin), s) \<and>
         update_review_answer repo s subject dto center_id review_id
           = (Inl (UnauthorizedException NOT_ACCESSIBLE msg_not_center_admin), s) \<and>
         delete_review_answer repo s subject center_id review_id
           = (Inl (UnauthorizedException NOT_ACCESSIBLE msg_not_center_admin), s) \<and>
         find_reviews_summary_by_center repo s subject center_id
           = (Inl (UnauthorizedException NOT_ACCESSIBLE msg_not_center_admin), s)"
  using assms by (simp add: service_defs is_owner_def)

theorem non_owner_is_unauthorized_witness:
  "center_find_by_id (db_repo query_fixture) db_fixture ''center'' = Some center_fixture \<and>
   c_owner_id center_fixture \<noteq> rq_id other_user \<and>
   find_reviews_by_center (db_repo query_fixture) length db_fixture other_user ()
       ''center'' (Date 738000) (Date 738100) None None
     = (Inl (UnauthorizedException NOT_ACCESSIBLE msg_not_center_admin), db_fixture) \<and>
   create_review_answer (db_repo query_fixture) db_fixture other_user
       \<lparr>answer_content = ''content''\<rparr> ''center'' ''review''
     = (Inl (UnauthorizedException NOT_ACCESSIBLE msg_not_center_admin), db_fixture) \<and>
   update_review_answer (db_repo query_fixture) db_fixture other_user
       \<lparr>answer_content = ''content''\<rparr> ''center'' ''review''
     = (Inl (UnauthorizedException NOT_ACCESSIBLE msg_not_center_admin), db_fixture) \<and>
   delete_review_answer (db_repo query_fixture) db_fixture other_user ''center'' ''review''
     = (Inl (UnauthorizedException NOT_ACCESSIBLE msg_not_center_admin), db_fixture) \<and>
   find_reviews_summary_by_center (db_repo query_fixture) db_fixture other_user ''center''
     = (Inl (UnauthorizedException NOT_ACCESSIBLE msg_not_center_admin), db_fixture)"
proof -
  have c: "center_find_by_id (db_repo query_fixture) db_fixture ''center'' = Some center_fixture"
    by (simp add: db_repo_simps fixture_defs)
  have o: "c_owner_id center_fixture \<noteq> rq_id other_user"
    by (simp add: fixture_defs)
  from non_owner_is_unauthorized
      [OF c o, where paginate = length and params = "()" and start = "Date 738000"
         and end' = "Date 738100" and tag = None and is_answered = None
         and dto = "\<lparr>answer_content = ''content''\<rparr>" and review_id = "''review''"]
    c o
  show ?thesis by blast
qed

section \<open>Guards and errors\<close>

text \<open>
  C4. An operation that raises leaves the session as it found it, and what it raises is the
  exception of the first guard of its sequence that fails, the guards before it having
  passed: not-found when the center is missing; otherwise unauthorized when the subject
  does not own the center; otherwise, for the listing, bad-request when the date range is
  wrong, and for the operations on an answer, not-found when the review is missing from the
  center, and then not-found when the answer is already there (create) or is missing
  (update, delete). Every exception is a \<open>NotFoundException\<close>, an
  \<open>UnauthorizedException\<close> or a \<open>BadRequestException\<close>.
\<close>

theorem errors_at_first_violated_guard:
  "(fst (find_reviews_by_center repo paginate s subject params center_id start end'
            tag is_answered) = Inl e \<longrightarrow>
     snd (find_reviews_by_center repo paginate s subject params center_id start end'
            tag is_answered) = s \<and>
     (e = NotFoundException DATA_DOES_NOT_EXIST msg_center_not_exist \<and>
        center_find_by_id repo s center_id = None \<or>
      (\<exists>c. center_find_by_id repo s center_id = Some c \<and>
         ((e = UnauthorizedException NOT_ACCESSIBLE msg_not_center_admin \<and>
           c_owner_id c \<noteq> rq_id subject) \<or>
          (e = BadRequestException WRONG_DATE_RANGE msg_wrong_date_range \<and>
           c_owner_id c = rq_id subject \<and>
           (toordinal end' - toordinal start > 365 \<or>
            toordinal end' - toordinal start < 0)))))) \<and>
   (fst (create_review_answer repo s subject dto center_id review_id) = Inl e \<longrightarrow>
     snd (create_review_answer repo s subject dto center_id review_id) = s \<and>
     (e = NotFoundException DATA_DOES_NOT_EXIST msg_center_not_exist \<and>
        center_find_by_id repo s center_id = None \<or>
      (\<exists>c. center_find_by_id repo s center_id = Some c \<and>
         ((e = UnauthorizedException NOT_ACCESSIBLE msg_not_center_admin \<and>
           c_owner_id c \<noteq> rq_id subject) \<or>
          (c_owner_id c = rq_id subject \<and>
            ((e = NotFoundException DATA_DOES_NOT_EXIST msg_review_not_in_center \<and>
              review_find_by_id_and_center_id repo s review_id (c_id c) = None) \<or>
             (\<exists>r. review_find_by_id_and_center_id repo s review_id (c_id c) = Some r \<and>
                e = NotFoundException ROW_ALREADY_EXIST msg_answer_already_exist \<and>
                (\<exists>a. answer_find_by_review_id repo s (r_id r) = Some a)))))))) \<and>
   (fst (update_review_answer repo s subject dto center_id review_id) = Inl e \<longrightarrow>
     snd (update_review_answer repo s subject dto center_id review_id) = s \<and>
     (e = NotFoundException DATA_DOES_NOT_EXIST msg_center_not_exist \<and>
        center_find_by_id repo s center_id = None \<or>
      (\<exists>c. center_find_by_id repo s center_id = Some c \<and>
         ((e = UnauthorizedException NOT_ACCESSIBLE msg_not_center_admin \<and>
           c_owner_id c \<noteq> rq_id subject) \<or>
          (c_owner_id c = rq_id subject \<and>
            ((e = NotFoundException DATA_DOES_NOT_EXIST msg_no_review_in_center \<and>
              review_find_by_id_and_center_id repo s review_id (c_id c) = None) \<or>
             (\<exists>r. review_find_by_id_and_center_id repo s review_id (c_id c) = Some r \<and>
                e = NotFoundException DATA_DOES_NOT_EXIST msg_answer_not_exist \<and>
                answer_find_by_review_id repo s (r_id r) = None))))))) \<and>
   (fst (delete_review_answer repo s subject center_id review_id) = Inl e \<longrightarrow>
     snd (delete_review_answer repo s subject center_id review_id) = s \<and>
     (e = NotFoundException DATA_DOES_NOT_EXIST msg_center_not_exist \<and>
        center_find_by_id repo s center_id = None \<or>
      (\<exists>c. center_find_by_id repo s center_id = Some c \<and>
         ((e = UnauthorizedException NOT_ACCESSIBLE msg_not_center_admin \<and>
           c_owner_id c \<noteq> rq_id subject) \<or>
          (c_owner_id c = rq_id subject \<and>
            ((e = NotFoundException DATA_DOES_NOT_EXIST msg_no_review_in_center \<and>
              review_find_by_id_and_center_id repo s review_id (c_id c) = None) \<or>
             (\<exists>r. review_find_by_id_and_center_id repo s review_id (c_id c) = Some r \<and>
                e = NotFoundException DATA_DOES_NOT_EXIST msg_answer_not_exist \<and>
                answer_find_by_review_id repo s (r_id r) = None))))))) \<and>
   (fst (find_reviews_summary_by_center repo s subject center_id) = Inl e \<longrightarrow>
     snd (find_reviews_summary_by_center repo s subject center_id) = s \<and>
     (e = NotFoundException DATA_DOES_NOT_EXIST msg_center_not_exist \<and>
        center_find_by_id repo s center_id = None \<or>
      (\<exists>c. center_find_by_id repo s center_id = Some c \<and>
         e = UnauthorizedException NOT_ACCESSIBLE msg_not_center_admin \<and>
         c_owner_id c \<noteq> rq_id subject)))"
  apply (intro conjI)
  subgoal
    by (auto simp add: find_reviews_by_center_def is_owner_def days_between_def Let_def
        split: option.splits if_splits)
  subgoal
    by (auto simp add: create_review_answer_def is_owner_def Let_def
        split: option.splits if_splits)
  subgoal
    by (auto simp add: update_review_answer_def is_owner_def Let_def
        split: option.splits if_splits)
  subgoal
    by (auto simp add: delete_review_answer_def is_owner_def Let_def
        split: option.splits if_splits)
  subgoal
    by (auto simp add: find_reviews_summary_by_center_def is_owner_def Let_def
        split: option.splits if_splits prod.splits)
  done

theorem errors_at_first_violated_guard_witness:
  "fst (find_reviews_by_center (db_repo query_fixture) length db_fixture other_user () ''center''
          (Date 738000) (Date 738100) None None)
     = Inl (UnauthorizedException NOT_ACCESSIBLE msg_not_center_admin) \<and>
   snd (find_reviews_by_center (db_repo query_fixture) length db_fixture other_user () ''center''
          (Date 738000) (Date 738100) None None)
     = db_fixture \<and>
   fst (create_review_answer (db_repo query_fixture) db_fixture other_user
          \<lparr>answer_content = ''content''\<rparr> ''center'' ''review'')
     = Inl (UnauthorizedException NOT_ACCESSIBLE msg_not_center_admin) \<and>
   snd (create_review_answer (db_repo query_fixture) db_fixture other_user
          \<lparr>answer_content = ''content''\<rparr> ''center'' ''review'')
     = db_fixture \<and>
   fst (update_review_answer (db_repo query_fixture) db_fixture other_user
          \<lparr>answer_content = ''content''\<rparr> ''center'' ''review'')
     = Inl (UnauthorizedException NOT_ACCESSIBLE msg_not_center_admin) \<and>
   snd (update_review_answer (db_repo query_fixture) db_fixture other_user
          \<lparr>answer_content = ''content''\<rparr> ''center'' ''review'')
     = db_fixture \<and>
   fst (delete_review_answer (db_repo query_fixture) db_fixture other_user ''center'' ''review'')
     = Inl (UnauthorizedException NOT_ACCESSIBLE msg_not_center_admin) \<and>
   snd (delete_review_answer (db_repo query_fixture) db_fixture other_user ''center'' ''review'')
     = db_fixture \<and>
   fst (find_reviews_summary_by_center (db_repo query_fixture) db_fixture other_user ''center'')
     = Inl (UnauthorizedException NOT_ACCESSIBLE msg_not_center_admin) \<and>
   snd (find_reviews_summary_by_center (db_repo query_fixture) db_fixture other_user ''center'')
     = db_fixture \<and>
   center_find_by_id (db_repo query_fixture) db_fixture ''center'' = Some center_fixture \<and>
   c_owner_id center_fixture \<noteq> rq_id other_user \<and>
   fst (find_reviews_by_center (db_repo query_fixture) length db_fixture admin_user () ''center''
          (Date 738000) (Date 738500) None None)
     = Inl (BadRequestException WRONG_DATE_RANGE msg_wrong_date_range) \<and>
   snd (find_reviews_by_center (db_repo query_fixture) length db_fixture admin_user () ''center''
          (Date 738000) (Date 738500) None None)
     = db_fixture \<and>
   fst (create_review_answer (db_repo query_fixture) db_fixture admin_user
          \<lparr>answer_content = ''content''\<rparr> ''center'' ''review'')
     = Inl (NotFoundException ROW_ALREADY_EXIST msg_answer_already_exist) \<and>
   snd (create_review_answer (db_repo query_fixture) db_fixture admin_user
          \<lparr>answer_content = ''content''\<rparr> ''center'' ''review'')
     = db_fixture"
proof -
  have u:
    "fst (find_reviews_by_center (db_repo query_fixture) length db_fixture other_user () ''center''
            (Date 738000) (Date 738100) None None)
       = Inl (UnauthorizedException NOT_ACCESSIBLE msg_not_center_admin)"
    "fst (create_review_answer (db_repo query_fixture) db_fixture other_user
            \<lparr>answer_content = ''content''\<rparr> ''center'' ''review'')
       = Inl (UnauthorizedException NOT_ACCESSIBLE msg_not_center_admin)"
    "fst (update_review_answer (db_repo query_fixture) db_fixture other_user
            \<lparr>answer_content = ''content''\<rparr> ''center'' ''review'')
       = Inl (UnauthorizedException NOT_ACCESSIBLE msg_not_center_admin)"
    "fst (delete_review_answer (db_repo query_fixture) db_fixture other_user ''center'' ''review'')
       = Inl (UnauthorizedException NOT_ACCESSIBLE msg_not_center_admin)"
    "fst (find_reviews_summary_by_center (db_repo query_fixture) db_fixture other_user ''center'')
       = Inl (UnauthorizedException NOT_ACCESSIBLE msg_not_center_admin)"
    by (simp_all add: service_defs db_repo_simps is_owner_def fixture_defs)
  have b: "fst (find_reviews_by_center (db_repo query_fixture) length db_fixture admin_user () ''center''
            (Date 738000) (Date 738500) None None)
       = Inl (BadRequestException WRONG_DATE_RANGE msg_wrong_date_range)"
    by (simp add: find_reviews_by_center_def db_repo_simps is_owner_def days_between_def
        fixture_defs)
  have n: "fst (create_review_answer (db_repo query_fixture) db_fixture admin_user
            \<lparr>answer_content = ''content''\<rparr> ''center'' ''review'')
       = Inl (NotFoundException ROW_ALREADY_EXIST msg_answer_already_exist)"
    by (simp add: create_review_answer_def db_repo_simps is_owner_def fixture_defs)
  have c: "center_find_by_id (db_repo query_fixture) db_fixture ''center'' = Some center_fixture"
    and o: "c_owner_id center_fixture \<noteq> rq_id other_user"
    by (simp_all add: db_repo_simps fixture_defs)
  from errors_at_first_violated_guard
      [of "db_repo query_fixture" length db_fixture other_user "()" "''center''" "Date 738000"
          "Date 738100" None None "UnauthorizedException NOT_ACCESSIBLE msg_not_center_admin"
          "\<lparr>answer_content = ''content''\<rparr>" "''review''"]
    errors_at_first_violated_guard
      [of "db_repo query_fixture" length db_fixture admin_user "()" "''center''" "Date 738000"
          "Date 738500" None None "BadRequestException WRONG_DATE_RANGE msg_wrong_date_range"
          "\<lparr>answer_content = ''content''\<rparr>" "''review''"]
    errors_at_first_violated_guard
      [of "db_repo query_fixture" length db_fixture admin_user "()" "''center''" "Date 738000"
          "Date 738500" None None
          "NotFoundException ROW_ALREADY_EXIST msg_answer_already_exist"
          "\<lparr>answer_content = ''content''\<rparr>" "''review''"]
    u b n c o
  show ?thesis by simp
qed

text \<open>
  C8. For a center that exists: when the subject owns it, the listing raises the
  bad-request exception exactly when \<open>(end - start).days\<close> is above 365 or below 0, and
  otherwise returns the page of the repository's query, paginated; when the subject does
  not own it, the listing raises the unauthorized exception whatever the date range is.
\<close>

theorem date_range_check:
  assumes "center_find_by_id repo s center_id = Some c"
  shows "(c_owner_id c = rq_id subject \<longrightarrow>
           ((\<exists>e. fst (find_reviews_by_center repo paginate s subject params center_id start
                        end' tag is_answered) = Inl e \<and> is_bad_request e)
              \<longleftrightarrow> (toordinal end' - toordinal start > 365 \<or>
                   toordinal end' - toordinal start < 0)) \<and>
           (toordinal end' - toordinal start > 365 \<or> toordinal end' - toordinal start < 0 \<longrightarrow>
              find_reviews_by_center repo paginate s subject params center_id start end' tag
                  is_answered
                = (Inl (BadRequestException WRONG_DATE_RANGE msg_wrong_date_range), s)) \<and>
           (\<not> (toordinal end' - toordinal start > 365 \<or>
                toordinal end' - toordinal start < 0) \<longrightarrow>
              find_reviews_by_center repo paginate s subject params center_id start end' tag
                  is_answered
                = (Inr (paginate (review_find_reviews_by_center repo s params center_id start
                                    end' tag is_answered)), s))) \<and>
         (c_owner_id c \<noteq> rq_id subject \<longrightarrow>
           find_reviews_by_center repo paginate s subject params center_id start end' tag
               is_answered
             = (Inl (UnauthorizedException NOT_ACCESSIBLE msg_not_center_admin), s))"
  using assms by (auto simp add: find_reviews_by_center_def is_owner_def days_between_def)

theorem date_range_check_witness:
  "center_find_by_id (db_repo query_fixture) db_fixture ''center'' = Some center_fixture \<and>
   c_owner_id center_fixture = rq_id admin_user \<and>
   toordinal (Date 738500) - toordinal (Date 738000) > 365 \<and>
   find_reviews_by_center (db_repo query_fixture) length db_fixture admin_user () ''center''
       (Date 738000) (Date 738500) None None
     = (Inl (BadRequestException WRONG_DATE_RANGE msg_wrong_date_range), db_fixture) \<and>
   \<not> (toordinal (Date 738365) - toordinal (Date 738000) > 365 \<or>
       toordinal (Date 738365) - toordinal (Date 738000) < 0) \<and>
   find_reviews_by_center (db_repo query_fixture) length db_fixture admin_user () ''center''
       (Date 738000) (Date 738365) None None
     = (Inr 2, db_fixture) \<and>
   c_owner_id center_fixture \<noteq> rq_id other_user \<and>
   find_reviews_by_center (db_repo query_fixture) length db_fixture other_user () ''center''
       (Date 738500) (Date 738000) None None
     = (Inl (UnauthorizedException NOT_ACCESSIBLE msg_not_center_admin), db_fixture)"
proof -
  have c: "center_find_by_id (db_repo query_fixture) db_fixture ''center'' = Some center_fixture"
    by (simp add: db_repo_simps fixture_defs)
  have o: "c_owner_id center_fixture = rq_id admin_user"
    and n: "c_owner_id center_fixture \<noteq> rq_id other_user"
    by (simp_all add: fixture_defs)
  have q: "length (review_find_reviews_by_center (db_repo query_fixture) db_fixture ()
             ''center'' (Date 738000) (Date 738365) None None) = 2"
    by (simp add: db_repo_simps fixture_defs)
  from date_range_check [OF c, of admin_user length "()" "Date 738000" "Date 738500" None None]
    date_range_check [OF c, of admin_user length "()" "Date 738000" "Date 738365" None None]
    date_range_check [OF c, of other_user length "()" "Date 738500" "Date 738000" None None]
    c o n q
  show ?thesis by simp
qed

section \<open>Creating an answer\<close>

text \<open>
  C1. \<open>create_review_answer\<close> raises, leaving the session as it was, when the center is
  missing, or the subject does not own it, or the review is missing from the center, or the
  review has an answer. Otherwise it calls \<open>save\<close> once, on a new answer whose content is
  the request's \<open>answer_content\<close> and whose review is the review found, and returns the
  DTO of the row that \<open>save\<close> returned; on the relational store this adds exactly that one
  row to the answers.
\<close>

theorem create_review_answer_contract:
  "((center_find_by_id repo s center_id = None \<or>
     (\<exists>c. center_find_by_id repo s center_id = Some c \<and>
        (c_owner_id c \<noteq> rq_id subject \<or>
         review_find_by_id_and_center_id repo s review_id (c_id c) = None \<or>
         (\<exists>r a. review_find_by_id_and_center_id repo s review_id (c_id c) = Some r \<and>
            answer_find_by_review_id repo s (r_id r) = Some a))))
    \<longrightarrow> (\<exists>e. create_review_answer repo s subject dto center_id review_id = (Inl e, s))) \<and>
   ((center_find_by_id repo s center_id = Some c \<and> c_owner_id c = rq_id subject \<and>
     review_find_by_id_and_center_id repo s review_id (c_id c) = Some r \<and>
     answer_find_by_review_id repo s (r_id r) = None)
    \<longrightarrow> create_review_answer repo s subject dto center_id review_id
          = (Inr (from_entity (fst (answer_save repo s
                    \<lparr>a_content = answer_content dto, a_review_id = r_id r\<rparr>))),
             snd (answer_save repo s
                    \<lparr>a_content = answer_content dto, a_review_id = r_id r\<rparr>))) \<and>
   ((center_find_by_id (db_repo q) d center_id = Some c \<and> c_owner_id c = rq_id subject \<and>
     review_find_by_id_and_center_id (db_repo q) d review_id (c_id c) = Some r \<and>
     answer_find_by_review_id (db_repo q) d (r_id r) = None)
    \<longrightarrow> create_review_answer (db_repo q) d subject dto center_id review_id
          = (Inr \<lparr>resp_content = answer_content dto, resp_review_id = r_id r\<rparr>,
             d\<lparr>answers :=
                 answers d @ [\<lparr>a_content = answer_content dto, a_review_id = r_id r\<rparr>]\<rparr>))"
proof (intro conjI impI)
  assume "center_find_by_id repo s center_id = None \<or>
     (\<exists>c. center_find_by_id repo s center_id = Some c \<and>
        (c_owner_id c \<noteq> rq_id subject \<or>
         review_find_by_id_and_center_id repo s review_id (c_id c) = None \<or>
         (\<exists>r a. review_find_by_id_and_center_id repo s review_id (c_id c) = Some r \<and>
            answer_find_by_review_id repo s (r_id r) = Some a)))"
  then show "\<exists>e. create_review_answer repo s subject dto center_id review_id = (Inl e, s)"
    by (auto simp add: create_review_answer_def is_owner_def)
next
  assume "center_find_by_id repo s center_id = Some c \<and> c_owner_id c = rq_id subject \<and>
     review_find_by_id_and_center_id repo s review_id (c_id c) = Some r \<and>
     answer_find_by_review_id repo s (r_id r) = None"
  then show "create_review_answer repo s subject dto center_id review_id
          = (Inr (from_entity (fst (answer_save repo s
                    \<lparr>a_content = answer_content dto, a_review_id = r_id r\<rparr>))),
             snd (answer_save repo s
                    \<lparr>a_content = answer_content dto, a_review_id = r_id r\<rparr>))"
    by (simp add: create_review_answer_def is_owner_def Let_def)
next
  assume "center_find_by_id (db_repo q) d center_id = Some c \<and> c_owner_id c = rq_id subject \<and>
     review_find_by_id_and_center_id (db_repo q) d review_id (c_id c) = Some r \<and>
     answer_find_by_review_id (db_repo q) d (r_id r) = None"
  then show "create_review_answer (db_repo q) d subject dto center_id review_id
          = (Inr \<lparr>resp_content = answer_content dto, resp_review_id = r_id r\<rparr>,
             d\<lparr>answers :=
                 answers d @ [\<lparr>a_content = answer_content dto, a_review_id = r_id r\<rparr>]\<rparr>)"
    by (simp add: create_review_answer_def is_owner_def from_entity_def db_repo_simps Let_def)
qed

theorem create_review_answer_contract_witness:
  "center_find_by_id (db_repo query_fixture) db_fixture ''center'' = Some center_fixture \<and>
   c_owner_id center_fixture = rq_id admin_user \<and>
   review_find_by_id_and_center_id (db_repo query_fixture) db_fixture ''review''
       (c_id center_fixture) = Some review_fixture \<and>
   answer_find_by_review_id (db_repo query_fixture) db_fixture (r_id review_fixture)
     = Some review_answer_fixture \<and>
   (\<exists>e. create_review_answer (db_repo query_fixture) db_fixture admin_user
           \<lparr>answer_content = ''new answer''\<rparr> ''center'' ''review'' = (Inl e, db_fixture)) \<and>
   review_find_by_id_and_center_id (db_repo query_fixture) db_fixture ''review2''
       (c_id center_fixture) = Some not_answered_review_fixture \<and>
   answer_find_by_review_id (db_repo query_fixture) db_fixture
       (r_id not_answered_review_fixture) = None \<and>
   create_review_answer (db_repo query_fixture) db_fixture admin_user
       \<lparr>answer_content = ''new answer''\<rparr> ''center'' ''review2''
     = (Inr \<lparr>resp_content = ''new answer'', resp_review_id = ''review2''\<rparr>,
        db_fixture\<lparr>answers :=
          [review_answer_fixture, \<lparr>a_content = ''new answer'', a_review_id = ''review2''\<rparr>]\<rparr>)"
proof -
  have c: "center_find_by_id (db_repo query_fixture) db_fixture ''center'' = Some center_fixture"
    by (simp add: db_repo_simps fixture_defs)
  have o: "c_owner_id center_fixture = rq_id admin_user"
    by (simp add: fixture_defs)
  have r: "review_find_by_id_and_center_id (db_repo query_fixture) db_fixture ''review''
             (c_id center_fixture) = Some review_fixture"
    by (simp add: db_repo_simps fixture_defs)
  have a: "answer_find_by_review_id (db_repo query_fixture) db_fixture (r_id review_fixture)
             = Some review_answer_fixture"
    by (simp add: db_repo_simps fixture_defs)
  have r2: "review_find_by_id_and_center_id (db_repo query_fixture) db_fixture ''review2''
              (c_id center_fixture) = Some not_answered_review_fixture"
    by (simp add: db_repo_simps fixture_defs)
  have a2: "answer_find_by_review_id (db_repo query_fixture) db_fixture
              (r_id not_answered_review_fixture) = None"
    by (simp add: db_repo_simps fixture_defs)
  have rejected: "\<exists>e. create_review_answer (db_repo query_fixture) db_fixture admin_user
           \<lparr>answer_content = ''new answer''\<rparr> ''center'' ''review'' = (Inl e, db_fixture)"
    using create_review_answer_contract
      [of "db_repo query_fixture" db_fixture "''center''" admin_user "''review''"
          "\<lparr>answer_content = ''new answer''\<rparr>"]
      c o r a by blast
  have step: "create_review_answer (db_repo query_fixture) db_fixture admin_user
       \<lparr>answer_content = ''new answer''\<rparr> ''center'' ''review2''
     = (Inr \<lparr>resp_content = answer_content \<lparr>answer_content = ''new answer''\<rparr>,
             resp_review_id = r_id not_answered_review_fixture\<rparr>,
        db_fixture\<lparr>answers := answers db_fixture @
          [\<lparr>a_content = answer_content \<lparr>answer_content = ''new answer''\<rparr>,
            a_review_id = r_id not_answered_review_fixture\<rparr>]\<rparr>)"
    using create_review_answer_contract
      [of "db_repo query_fixture" db_fixture "''center''" admin_user "''review2''"
          "\<lparr>answer_content = ''new answer''\<rparr>" center_fixture not_answered_review_fixture
          query_fixture db_fixture]
      c o r2 a2 by blast
  have saved: "create_review_answer (db_repo query_fixture) db_fixture admin_user
       \<lparr>answer_content = ''new answer''\<rparr> ''center'' ''review2''
     = (Inr \<lparr>resp_content = ''new answer'', resp_review_id = ''review2''\<rparr>,
        db_fixture\<lparr>answers :=
          [review_answer_fixture, \<lparr>a_content = ''new answer'', a_review_id = ''review2''\<rparr>]\<rparr>)"
    unfolding step by (simp add: fixture_defs)
  from c o r a rejected r2 a2 saved show ?thesis by blast
qed

text \<open>
  C2, as the code has it. For an owned center and a review of it that has an answer,
  \<open>create_review_answer\<close> raises \<open>NotFoundException\<close> with the code
  \<open>ROW_ALREADY_EXIST\<close>: the exception is of the not-found kind, and the service has no
  conflict kind.
\<close>

theorem answered_review_is_rejected:
  assumes "center_find_by_id repo s center_id = Some c"
    and "c_owner_id c = rq_id subject"
    and "review_find_by_id_and_center_id repo s review_id (c_id c) = Some r"
    and "answer_find_by_review_id repo s (r_id r) = Some a"
  shows "create_review_answer repo s subject dto center_id review_id
           = (Inl (NotFoundException ROW_ALREADY_EXIST msg_answer_already_exist), s)"
  using assms by (simp add: create_review_answer_def is_owner_def)

theorem answered_review_is_rejected_witness:
  "center_find_by_id (db_repo query_fixture) db_fixture ''center'' = Some center_fixture \<and>
   c_owner_id center_fixture = rq_id admin_user \<and>
   review_find_by_id_and_center_id (db_repo query_fixture) db_fixture ''review''
       (c_id center_fixture) = Some review_fixture \<and>
   answer_find_by_review_id (db_repo query_fixture) db_fixture (r_id review_fixture)
     = Some review_answer_fixture \<and>
   create_review_answer (db_repo query_fixture) db_fixture admin_user
       \<lparr>answer_content = ''new answer''\<rparr> ''center'' ''review''
     = (Inl (NotFoundException ROW_ALREADY_EXIST msg_answer_already_exist), db_fixture)"
proof -
  have c: "center_find_by_id (db_repo query_fixture) db_fixture ''center'' = Some center_fixture"
    by (simp add: db_repo_simps fixture_defs)
  have o: "c_owner_id center_fixture = rq_id admin_user"
    by (simp add: fixture_defs)
  have r: "review_find_by_id_and_center_id (db_repo query_fixture) db_fixture ''review''
             (c_id center_fixture) = Some review_fixture"
    by (simp add: db_repo_simps fixture_defs)
  have a: "answer_find_by_review_id (db_repo query_fixture) db_fixture (r_id review_fixture)
             = Some review_answer_fixture"
    by (simp add: db_repo_simps fixture_defs)
  from answered_review_is_rejected [OF c o r a] c o r a show ?thesis by blast
qed

text \<open>
  C2, as stated, fails: the answered review of the fixtures is refused with an exception of
  the class \<open>NotFoundException\<close>, as the test of this case expects, not with a conflict.
\<close>

theorem answered_review_raises_not_found:
  "create_review_answer (db_repo query_fixture) db_fixture admin_user
       \<lparr>answer_content = ''content''\<rparr> ''center'' ''review''
     = (Inl (NotFoundException ROW_ALREADY_EXIST msg_answer_already_exist), db_fixture)"
  by (simp add: create_review_answer_def db_repo_simps is_owner_def fixture_defs)

text \<open>
  C10. Whenever \<open>create_review_answer\<close> raises, the session it leaves is the session it
  was given, and the outcome is the same whatever \<open>save\<close> would do: \<open>save\<close> is not
  called on a failing run.
\<close>

theorem create_review_answer_error_before_save:
  assumes "fst (create_review_answer repo s subject dto center_id review_id) = Inl e"
  shows "snd (create_review_answer repo s subject dto center_id review_id) = s \<and>
         create_review_answer (repo\<lparr>answer_save := save'\<rparr>) s subject dto center_id review_id
           = create_review_answer repo s subject dto center_id review_id"
  using assms
  by (auto simp add: create_review_answer_def Let_def split: option.splits if_splits)

theorem create_review_answer_error_before_save_witness:
  "fst (create_review_answer (db_repo query_fixture) db_fixture admin_user
          \<lparr>answer_content = ''content''\<rparr> ''center'' ''wrong id'')
     = Inl (NotFoundException DATA_DOES_NOT_EXIST msg_review_not_in_center) \<and>
   snd (create_review_answer (db_repo query_fixture) db_fixture admin_user
          \<lparr>answer_content = ''content''\<rparr> ''center'' ''wrong id'') = db_fixture \<and>
   create_review_answer (db_repo query_fixture\<lparr>answer_save := (\<lambda>s a. (a, s\<lparr>answers := []\<rparr>))\<rparr>)
       db_fixture admin_user \<lparr>answer_content = ''content''\<rparr> ''center'' ''wrong id''
     = create_review_answer (db_repo query_fixture) db_fixture admin_user
         \<lparr>answer_content = ''content''\<rparr> ''center'' ''wrong id''"
proof -
  have e: "fst (create_review_answer (db_repo query_fixture) db_fixture admin_user
                  \<lparr>answer_content = ''content''\<rparr> ''center'' ''wrong id'')
             = Inl (NotFoundException DATA_DOES_NOT_EXIST msg_review_not_in_center)"
    by (simp add: create_review_answer_def db_repo_simps is_owner_def fixture_defs)
  from create_review_answer_error_before_save [OF e] e show ?thesis by blast
qed

section \<open>One answer for a review\<close>

text \<open>The invariant says that no review has two answers.\<close>

lemma distinct_map_count:
  "distinct (map f xs) \<longleftrightarrow> (\<forall>k. length (filter (\<lambda>a. f a = k) xs) \<le> 1)"
proof (induction xs)
  case Nil
  then show ?case by simp
next
  case (Cons x xs)
  have none: "f x \<notin> f ` set xs \<longleftrightarrow> length (filter (\<lambda>a. f a = f x) xs) = 0"
    by (force simp add: filter_empty_conv image_iff)
  show ?case
  proof
    assume d: "distinct (map f (x # xs))"
    with Cons have all: "\<forall>k. length (filter (\<lambda>a. f a = k) xs) \<le> 1" by simp
    from d none have "length (filter (\<lambda>a. f a = f x) xs) = 0" by simp
    with all show "\<forall>k. length (filter (\<lambda>a. f a = k) (x # xs)) \<le> 1" by auto
  next
    assume a: "\<forall>k. length (filter (\<lambda>a. f a = k) (x # xs)) \<le> 1"
    then have "length (filter (\<lambda>a. f a = f x) (x # xs)) \<le> 1" by blast
    then have z: "length (filter (\<lambda>a. f a = f x) xs) = 0" by simp
    have "\<forall>k. length (filter (\<lambda>a. f a = k) xs) \<le> 1"
    proof
      fix k
      from a have "length (filter (\<lambda>a. f a = k) (x # xs)) \<le> 1" by blast
      then show "length (filter (\<lambda>a. f a = k) xs) \<le> 1" by (simp split: if_splits)
    qed
    with Cons have "distinct (map f xs)" by simp
    with z none show "distinct (map f (x # xs))" by simp
  qed
qed

lemma at_most_one_answer_iff:
  "at_most_one_answer s \<longleftrightarrow>
     (\<forall>review_id. length (filter (\<lambda>a. a_review_id a = review_id) (answers s)) \<le> 1)"
  by (simp add: at_most_one_answer_def distinct_map_count)

lemma find_review_id_None:
  "find (\<lambda>a. a_review_id a = i) xs = None \<Longrightarrow> i \<notin> a_review_id ` set xs"
  by (auto simp add: find_None_iff)

lemma review_ids_replace1:
  "a_review_id b = a_review_id a \<Longrightarrow> map a_review_id (replace1 a b xs) = map a_review_id xs"
  by (induction xs) auto

lemma distinct_map_remove1:
  "distinct (map f xs) \<Longrightarrow> distinct (map f (remove1 x xs))"
proof (induction xs)
  case Nil
  then show ?case by simp
next
  case (Cons y ys)
  have "set (remove1 x ys) \<subseteq> set ys" by (rule set_remove1_subset)
  with Cons show ?case by auto
qed

lemma state_after_at_most_one_answer:
  assumes "at_most_one_answer s"
  shows "at_most_one_answer (state_after (db_repo q) s call)"
proof (cases call)
  case (FindReviews subject params center_id start end' tag is_answered)
  with assms show ?thesis
    by (auto simp add: find_reviews_by_center_def Let_def split: option.splits)
next
  case (CreateAnswer subject dto center_id review_id)
  with assms show ?thesis
    by (auto simp add: create_review_answer_def at_most_one_answer_def db_repo_simps Let_def
        dest: find_review_id_None split: option.splits)
next
  case (UpdateAnswer subject dto center_id review_id)
  with assms show ?thesis
    by (auto simp add: update_review_answer_def at_most_one_answer_def db_repo_simps Let_def
        review_ids_replace1 split: option.splits)
next
  case (DeleteAnswer subject center_id review_id)
  with assms show ?thesis
    by (auto simp add: delete_review_answer_def at_most_one_answer_def db_repo_simps
        distinct_map_remove1 split: option.splits)
next
  case (FindSummary subject center_id)
  with assms show ?thesis
    by (auto simp add: find_reviews_summary_by_center_def Let_def
        split: option.splits prod.splits)
qed

lemma run_at_most_one_answer:
  "at_most_one_answer s \<Longrightarrow> at_most_one_answer (foldl (state_after (db_repo q)) s calls)"
  by (induction calls arbitrary: s) (simp_all add: state_after_at_most_one_answer)

text \<open>
  C7. On the relational store, a call of any of the five operations, and so any sequence
  of calls, keeps the answers such that no two of them refer to the same review: create adds
  a row only when it found no answer for the review, update keeps the review of the row it
  changes, delete removes a row, and the two queries leave the store alone. Over any
  repositories, no operation but create calls \<open>save\<close> (the state it leaves does not
  depend on what \<open>save\<close> does), and a create that raises does not call it either.
\<close>

theorem one_answer_per_review_preserved:
  "(at_most_one_answer s \<longrightarrow>
      at_most_one_answer (state_after (db_repo q) s call) \<and>
      at_most_one_answer (foldl (state_after (db_repo q)) s calls)) \<and>
   ((\<forall>subject dto center_id review_id. call \<noteq> CreateAnswer subject dto center_id review_id)
      \<longrightarrow> state_after (repo\<lparr>answer_save := save'\<rparr>) t call = state_after repo t call) \<and>
   (fst (create_review_answer repo t subject dto center_id review_id) = Inl e
      \<longrightarrow> state_after (repo\<lparr>answer_save := save'\<rparr>) t
            (CreateAnswer subject dto center_id review_id) = t)"
proof (intro conjI impI)
  assume "at_most_one_answer s"
  then show "at_most_one_answer (state_after (db_repo q) s call)"
    by (rule state_after_at_most_one_answer)
next
  assume "at_most_one_answer s"
  then show "at_most_one_answer (foldl (state_after (db_repo q)) s calls)"
    by (rule run_at_most_one_answer)
next
  assume "\<forall>subject dto center_id review_id. call \<noteq> CreateAnswer subject dto center_id review_id"
  then show "state_after (repo\<lparr>answer_save := save'\<rparr>) t call = state_after repo t call"
    by (cases call)
      (auto simp add: service_defs Let_def split: option.splits if_splits prod.splits)
next
  assume "fst (create_review_answer repo t subject dto center_id review_id) = Inl e"
  then show "state_after (repo\<lparr>answer_save := save'\<rparr>) t
               (CreateAnswer subject dto center_id review_id) = t"
    by (auto simp add: create_review_answer_def Let_def split: option.splits if_splits)
qed


theorem one_answer_per_review_preserved_witness:
  "at_most_one_answer db_fixture \<and>
   at_most_one_answer
     (state_after (db_repo query_fixture) db_fixture
        (CreateAnswer admin_user \<lparr>answer_content = ''new answer''\<rparr> ''center'' ''review2'')) \<and>
   at_most_one_answer
     (foldl (state_after (db_repo query_fixture)) db_fixture
        [CreateAnswer admin_user \<lparr>answer_content = ''new answer''\<rparr> ''center'' ''review2'',
         CreateAnswer admin_user \<lparr>answer_content = ''again''\<rparr> ''center'' ''review2'',
         DeleteAnswer admin_user ''center'' ''review'']) \<and>
   answers
     (foldl (state_after (db_repo query_fixture)) db_fixture
        [CreateAnswer admin_user \<lparr>answer_content = ''new answer''\<rparr> ''center'' ''review2'',
         CreateAnswer admin_user \<lparr>answer_content = ''again''\<rparr> ''center'' ''review2'',
         DeleteAnswer admin_user ''center'' ''review''])
     = [\<lparr>a_content = ''new answer'', a_review_id = ''review2''\<rparr>] \<and>
   state_after (db_repo query_fixture\<lparr>answer_save := (\<lambda>s a. (a, s\<lparr>answers := [a, a]\<rparr>))\<rparr>)
       db_fixture (DeleteAnswer admin_user ''center'' ''review'')
     = state_after (db_repo query_fixture) db_fixture
         (DeleteAnswer admin_user ''center'' ''review'') \<and>
   fst (create_review_answer (db_repo query_fixture) db_fixture admin_user
          \<lparr>answer_content = ''again''\<rparr> ''center'' ''review'')
     = Inl (NotFoundException ROW_ALREADY_EXIST msg_answer_already_exist) \<and>
   state_after (db_repo query_fixture\<lparr>answer_save := (\<lambda>s a. (a, s\<lparr>answers := [a, a]\<rparr>))\<rparr>)
       db_fixture (CreateAnswer admin_user \<lparr>answer_content = ''again''\<rparr> ''center'' ''review'')
     = db_fixture"
proof -
  have i: "at_most_one_answer db_fixture"
    by (simp add: at_most_one_answer_def fixture_defs)
  have a: "answers
     (foldl (state_after (db_repo query_fixture)) db_fixture
        [CreateAnswer admin_user \<lparr>answer_content = ''new answer''\<rparr> ''center'' ''review2'',
         CreateAnswer admin_user \<lparr>answer_content = ''again''\<rparr> ''center'' ''review2'',
         DeleteAnswer admin_user ''center'' ''review''])
     = [\<lparr>a_content = ''new answer'', a_review_id = ''review2''\<rparr>]"
    by (simp add: create_review_answer_def delete_review_answer_def db_repo_simps is_owner_def
        fixture_defs Let_def)
  have e: "fst (create_review_answer (db_repo query_fixture) db_fixture admin_user
                  \<lparr>answer_content = ''again''\<rparr> ''center'' ''review'')
             = Inl (NotFoundException ROW_ALREADY_EXIST msg_answer_already_exist)"
    by (simp add: create_review_answer_def db_repo_simps is_owner_def fixture_defs)
  have p1: "at_most_one_answer
     (state_after (db_repo query_fixture) db_fixture
        (CreateAnswer admin_user \<lparr>answer_content = ''new answer''\<rparr> ''center'' ''review2'')) \<and>
   at_most_one_answer
     (foldl (state_after (db_repo query_fixture)) db_fixture
        [CreateAnswer admin_user \<lparr>answer_content = ''new answer''\<rparr> ''center'' ''review2'',
         CreateAnswer admin_user \<lparr>answer_content = ''again''\<rparr> ''center'' ''review2'',
         DeleteAnswer admin_user ''center'' ''review''])"
    using one_answer_per_review_preserved
      [where s = db_fixture and q = query_fixture
         and call = "CreateAnswer admin_user \<lparr>answer_content = ''new answer''\<rparr> ''center''
                       ''review2''"
         and calls =
           "[CreateAnswer admin_user \<lparr>answer_content = ''new answer''\<rparr> ''center'' ''review2'',
             CreateAnswer admin_user \<lparr>answer_content = ''again''\<rparr> ''center'' ''review2'',
             DeleteAnswer admin_user ''center'' ''review'']",
        THEN conjunct1, THEN mp, OF i]
    by this
  have d: "\<forall>subject dto center_id review_id.
      DeleteAnswer admin_user ''center'' ''review'' \<noteq>
        (CreateAnswer subject dto center_id review_id :: unit call)"
    by simp
  have p2: "state_after
       (db_repo query_fixture\<lparr>answer_save := (\<lambda>s a. (a, s\<lparr>answers := [a, a]\<rparr>))\<rparr>)
       db_fixture (DeleteAnswer admin_user ''center'' ''review'')
     = state_after (db_repo query_fixture) db_fixture
         (DeleteAnswer admin_user ''center'' ''review'')"
    using one_answer_per_review_preserved
      [where call = "DeleteAnswer admin_user ''center'' ''review''"
         and repo = "db_repo query_fixture" and t = db_fixture
         and save' = "\<lambda>s a. (a, s\<lparr>answers := [a, a]\<rparr>)",
        THEN conjunct2, THEN conjunct1, THEN mp, OF d]
    by this
  have p3: "state_after
       (db_repo query_fixture\<lparr>answer_save := (\<lambda>s a. (a, s\<lparr>answers := [a, a]\<rparr>))\<rparr>)
       db_fixture (CreateAnswer admin_user \<lparr>answer_content = ''again''\<rparr> ''center'' ''review'')
     = db_fixture"
    using one_answer_per_review_preserved
      [where repo = "db_repo query_fixture" and t = db_fixture
         and save' = "\<lambda>s a. (a, s\<lparr>answers := [a, a]\<rparr>)"
         and subject = admin_user and dto = "\<lparr>answer_content = ''again''\<rparr>"
         and center_id = "''center''" and review_id = "''review''"
         and e = "NotFoundException ROW_ALREADY_EXIST msg_answer_already_exist",
        THEN conjunct2, THEN conjunct2, THEN mp, OF e]
    by this
  show ?thesis
    by (intro conjI) (rule i p1 [THEN conjunct1] p1 [THEN conjunct2] a p2 e p3)+
qed

section \<open>The summary of a center's reviews\<close>

lemma collect_eq:
  "collect rs is_answer tags =
     (is_answer @ map (\<lambda>r. r_answer_id r \<noteq> None) rs, tags @ map r_tag rs)"
  by (induction rs arbitrary: is_answer tags) auto

lemma foldl_append_concat: "foldl (@) acc xss = acc @ concat xss"
  by (induction xss arbitrary: acc) simp_all

lemma sum_lists_concat: "sum_lists xss = concat xss"
  by (simp add: sum_lists_def foldl_append_concat)

lemma map_of_counter_add:
  "map_of (counter_add x c) k =
     (if k = x then Some (counter_get c x + 1) else map_of c k)"
  by (induction x c rule: counter_add.induct) (auto simp add: counter_get_def)

lemma keys_counter_add:
  "map fst (counter_add x c) = (if x \<in> fst ` set c then map fst c else map fst c @ [x])"
  by (induction x c rule: counter_add.induct) (auto simp add: image_iff)

lemma key_set_counter_add: "fst ` set (counter_add x c) = insert x (fst ` set c)"
proof -
  have "set (map fst (counter_add x c)) = insert x (set (map fst c))"
    unfolding keys_counter_add by auto
  then show ?thesis by simp
qed

lemma distinct_counter_add:
  "distinct (map fst c) \<Longrightarrow> distinct (map fst (counter_add x c))"
  by (simp add: keys_counter_add)

lemma counter_get_Nil: "counter_get [] k = 0"
  by (simp add: counter_get_def)

lemma counter_get_counter_add:
  "counter_get (counter_add x c) k = counter_get c k + (if x = k then 1 else 0)"
  by (simp add: counter_get_def map_of_counter_add)

lemma counter_fold_get:
  "counter_get (foldl (\<lambda>c x. counter_add x c) c xs) k = counter_get c k + count_list xs k"
  by (induction xs arbitrary: c) (simp_all add: counter_get_counter_add)

lemma counter_fold_keys:
  "fst ` set (foldl (\<lambda>c x. counter_add x c) c xs) = fst ` set c \<union> set xs"
  by (induction xs arbitrary: c) (simp_all add: key_set_counter_add)

lemma counter_fold_distinct:
  "distinct (map fst c) \<Longrightarrow> distinct (map fst (foldl (\<lambda>c x. counter_add x c) c xs))"
  by (induction xs arbitrary: c) (simp_all add: distinct_counter_add)

lemma Counter_get: "counter_get (Counter xs) k = count_list xs k"
  by (simp add: Counter_def counter_fold_get counter_get_Nil)

lemma Counter_keys: "fst ` set (Counter xs) = set xs"
  by (simp add: Counter_def counter_fold_keys)

lemma Counter_distinct: "distinct (map fst (Counter xs))"
  by (simp add: Counter_def counter_fold_distinct)

lemma Counter_items:
  assumes "(k, n) \<in> set (Counter xs)"
  shows "n = count_list xs k"
proof -
  from assms Counter_distinct [of xs] have "map_of (Counter xs) k = Some n" by simp
  then have "counter_get (Counter xs) k = n" by (simp add: counter_get_def)
  then show ?thesis by (simp add: Counter_get)
qed

lemma count_list_map_bool:
  "count_list (map P xs) True = length (filter P xs)"
  "count_list (map P xs) False = length (filter (\<lambda>x. \<not> P x) xs)"
  by (induction xs) auto

text \<open>
  C5. For a center that the subject owns, the summary returns, leaving the session as it
  was: the number of the center's reviews whose answer reference is not null and the number
  of those whose answer reference is null; and one entry for every word that occurs in the
  concatenation of the tag lists of those reviews, each word once, with the number of its
  occurrences there.
\<close>

theorem review_summary_counts:
  assumes "center_find_by_id repo s center_id = Some c"
    and "c_owner_id c = rq_id subject"
  shows "\<exists>dto. find_reviews_summary_by_center repo s subject center_id = (Inr dto, s) \<and>
           count_answered dto =
             length (filter (\<lambda>r. r_answer_id r \<noteq> None)
                       (review_find_all_by_center repo s (c_id c))) \<and>
           count_not_answered dto =
             length (filter (\<lambda>r. r_answer_id r = None)
                       (review_find_all_by_center repo s (c_id c))) \<and>
           distinct (map dto_tag (review_by_tag dto)) \<and>
           set (map dto_tag (review_by_tag dto)) =
             set (map t_word (concat (map r_tag (review_find_all_by_center repo s (c_id c))))) \<and>
           (\<forall>d \<in> set (review_by_tag dto).
              dto_count d =
                count_list
                  (map t_word (concat (map r_tag (review_find_all_by_center repo s (c_id c)))))
                  (dto_tag d))"
proof -
  define rs where "rs = review_find_all_by_center repo s (c_id c)"
  define ws where "ws = map t_word (concat (map r_tag rs))"
  define dto where "dto = summary_from_entity c (Counter (map (\<lambda>r. r_answer_id r \<noteq> None) rs))
      (map (\<lambda>(tag, count). \<lparr>dto_tag = tag, dto_count = count\<rparr>) (Counter ws))"
  have res: "find_reviews_summary_by_center repo s subject center_id = (Inr dto, s)"
    using assms
    by (simp add: find_reviews_summary_by_center_def is_owner_def Let_def collect_eq
        sum_lists_concat dto_def ws_def rs_def)
  have tags: "map dto_tag (review_by_tag dto) = map fst (Counter ws)"
    by (simp add: dto_def summary_from_entity_def case_prod_unfold comp_def)
  have answered: "count_answered dto = length (filter (\<lambda>r. r_answer_id r \<noteq> None) rs)"
    by (simp add: dto_def summary_from_entity_def Counter_get count_list_map_bool)
  have unanswered: "count_not_answered dto = length (filter (\<lambda>r. r_answer_id r = None) rs)"
    by (simp add: dto_def summary_from_entity_def Counter_get count_list_map_bool)
  have dist: "distinct (map dto_tag (review_by_tag dto))"
    by (simp only: tags Counter_distinct)
  have keys: "set (map dto_tag (review_by_tag dto)) = set ws"
    by (simp only: tags set_map Counter_keys)
  have counts: "\<forall>d \<in> set (review_by_tag dto). dto_count d = count_list ws (dto_tag d)"
    by (auto simp add: dto_def summary_from_entity_def dest: Counter_items)
  from res answered unanswered dist keys counts show ?thesis
    unfolding ws_def rs_def by blast
qed

theorem review_summary_counts_witness:
  "center_find_by_id (db_repo query_fixture) db_fixture ''center'' = Some center_fixture \<and>
   c_owner_id center_fixture = rq_id admin_user \<and>
   find_reviews_summary_by_center (db_repo query_fixture) db_fixture admin_user ''center''
     = (Inr \<lparr>sum_center_id = ''center'', count_answered = 1, count_not_answered = 1,
             review_by_tag = [\<lparr>dto_tag = ''tag'', dto_count = 2\<rparr>,
                              \<lparr>dto_tag = ''tag2'', dto_count = 1\<rparr>]\<rparr>, db_fixture) \<and>
   (\<exists>dto. find_reviews_summary_by_center (db_repo query_fixture) db_fixture admin_user
             ''center'' = (Inr dto, db_fixture) \<and>
      count_answered dto = 1 \<and> count_not_answered dto = 1 \<and>
      set (map dto_tag (review_by_tag dto)) = {''tag'', ''tag2''})"
proof -
  have c: "center_find_by_id (db_repo query_fixture) db_fixture ''center'' = Some center_fixture"
    by (simp add: db_repo_simps fixture_defs)
  have o: "c_owner_id center_fixture = rq_id admin_user"
    by (simp add: fixture_defs)
  have rs: "review_find_all_by_center (db_repo query_fixture) db_fixture (c_id center_fixture)
              = [review_fixture, not_answered_review_fixture]"
    by (simp add: db_repo_simps fixture_defs)
  have v: "find_reviews_summary_by_center (db_repo query_fixture) db_fixture admin_user
             ''center''
     = (Inr \<lparr>sum_center_id = ''center'', count_answered = 1, count_not_answered = 1,
             review_by_tag = [\<lparr>dto_tag = ''tag'', dto_count = 2\<rparr>,
                              \<lparr>dto_tag = ''tag2'', dto_count = 1\<rparr>]\<rparr>, db_fixture)"
    by (simp add: find_reviews_summary_by_center_def db_repo_simps is_owner_def fixture_defs
        sum_lists_def Counter_def summary_from_entity_def counter_get_def)
  from review_summary_counts [OF c o] obtain dto where
    d: "find_reviews_summary_by_center (db_repo query_fixture) db_fixture admin_user ''center''
          = (Inr dto, db_fixture)"
    and a: "count_answered dto =
          length (filter (\<lambda>r. r_answer_id r \<noteq> None)
            (review_find_all_by_center (db_repo query_fixture) db_fixture (c_id center_fixture)))"
    and u: "count_not_answered dto =
          length (filter (\<lambda>r. r_answer_id r = None)
            (review_find_all_by_center (db_repo query_fixture) db_fixture (c_id center_fixture)))"
    and t: "set (map dto_tag (review_by_tag dto)) =
          set (map t_word (concat (map r_tag
            (review_find_all_by_center (db_repo query_fixture) db_fixture
               (c_id center_fixture)))))"
    by blast
  from a have a': "count_answered dto = 1"
    unfolding rs by (simp add: fixture_defs)
  from u have u': "count_not_answered dto = 1"
    unfolding rs by (simp add: fixture_defs)
  from t have t': "set (map dto_tag (review_by_tag dto)) = {''tag'', ''tag2''}"
    unfolding rs by (auto simp add: fixture_defs)
  from c o v d a' u' t' show ?thesis by blast
qed

section \<open>Validation of requests\<close>

text \<open>
  What the two DTOs accept. A fee is accepted exactly when its name has 2 to 50 characters
  and its price and count are not negative; an operating time exactly when its day is one
  of the eight values and both times match the pattern. Every time of day \<open>HH:MM\<close>
  matches the pattern; over the ASCII digits, what matches is a time of day \<open>HH:MM\<close>,
  alone or followed by one newline.
\<close>

lemma CenterFeeDto_accepted_iff:
  "CenterFeeDto n p c = Inr dto \<longleftrightarrow>
     2 \<le> length n \<and> length n \<le> 50 \<and> 0 \<le> p \<and> 0 \<le> c \<and>
     dto = \<lparr>fee_name = n, fee_price = p, fee_count = c\<rparr>"
  by (auto simp add: CenterFeeDto_def validate_fee_name_def validate_price_def
      validate_count_def)

lemma CenterFeeDto_rejected_iff:
  "(\<exists>errs. CenterFeeDto n p c = Inl errs \<and> errs \<noteq> []) \<longleftrightarrow>
     length n < 2 \<or> 50 < length n \<or> p < 0 \<or> c < 0"
  by (auto simp add: CenterFeeDto_def validate_fee_name_def validate_price_def
      validate_count_def raised_def)

lemma CenterOperatingTimeDto_accepted_iff:
  "CenterOperatingTimeDto nd d s e = Inr dto \<longleftrightarrow>
     d \<in> set day_values \<and> time_re_match nd s \<and> time_re_match nd e \<and>
     dto = \<lparr>day_of_week = d, start_time = s, end_time = e\<rparr>"
  by (auto simp add: CenterOperatingTimeDto_def validate_day_of_week_def
      validate_start_time_def validate_end_time_def)

lemma is_hhmm_accepted: "is_hhmm s \<Longrightarrow> time_re_match nd s"
  by (induction s rule: is_hhmm.induct) (auto simp add: is_digit_def)

lemma ascii_hour:
  "(h1 = 48 \<and> 48 \<le> h2 \<and> h2 \<le> 57 \<or> h1 = 49 \<and> 48 \<le> h2 \<and> h2 \<le> 57 \<or>
    h1 = 50 \<and> 48 \<le> h2 \<and> h2 \<le> 51)
   \<longleftrightarrow> (48 \<le> h1 \<and> h1 \<le> 57 \<and> 48 \<le> h2 \<and> h2 \<le> 57 \<and>
        (h1 - 48) * 10 + (h2 - 48) \<le> (23::nat))"
  by arith

lemma ascii_minute:
  "(m1 = 48 \<and> 49 \<le> m2 \<and> m2 \<le> 57 \<or> 48 \<le> m1 \<and> m1 \<le> 53 \<and> 48 \<le> m2 \<and> m2 \<le> 57)
   \<longleftrightarrow> (48 \<le> m1 \<and> m1 \<le> 57 \<and> 48 \<le> m2 \<and> m2 \<le> 57 \<and>
        (m1 - 48) * 10 + (m2 - 48) \<le> (59::nat))"
  by arith

lemma ascii_time_re_match:
  assumes "\<forall>c. \<not> nd c"
  shows "time_re_match nd s \<longleftrightarrow> is_hhmm s \<or> (\<exists>t. s = t @ [10] \<and> is_hhmm t)"
proof (cases "\<exists>h1 h2 c m1 m2 rest. s = h1 # h2 # c # m1 # m2 # rest")
  case True
  then obtain h1 h2 c m1 m2 rest where s: "s = h1 # h2 # c # m1 # m2 # rest" by blast
  have m: "time_re_match nd s \<longleftrightarrow> is_hhmm [h1, h2, c, m1, m2] \<and> (rest = [] \<or> rest = [10])"
    unfolding s using assms ascii_hour [of h1 h2] ascii_minute [of m1 m2]
    by (simp add: is_digit_def) blast
  have l: "is_hhmm s \<longleftrightarrow> is_hhmm [h1, h2, c, m1, m2] \<and> rest = []"
    unfolding s by (cases rest) auto
  have r: "(\<exists>t. s = t @ [10] \<and> is_hhmm t) \<longleftrightarrow> is_hhmm [h1, h2, c, m1, m2] \<and> rest = [10]"
  proof
    assume "\<exists>t. s = t @ [10] \<and> is_hhmm t"
    then obtain t where t: "s = t @ [10]" and h: "is_hhmm t" by blast
    from h have "length t = 5" by (induction t rule: is_hhmm.induct) auto
    with t s have tt: "t = [h1, h2, c, m1, m2]" and rr: "rest = [10]"
      by (auto simp add: length_Suc_conv numeral_eq_Suc)
    from h rr show "is_hhmm [h1, h2, c, m1, m2] \<and> rest = [10]"
      unfolding tt by blast
  next
    assume a: "is_hhmm [h1, h2, c, m1, m2] \<and> rest = [10]"
    with s have "s = [h1, h2, c, m1, m2] @ [10]" by simp
    with a show "\<exists>t. s = t @ [10] \<and> is_hhmm t" by blast
  qed
  from m l r show ?thesis by blast
next
  case False
  then have n: "\<not> time_re_match nd s"
    by (induction nd s rule: time_re_match.induct) auto
  from False have h: "\<not> is_hhmm s"
    by (induction s rule: is_hhmm.induct) auto
  have "\<not> (\<exists>t. s = t @ [10] \<and> is_hhmm t)"
  proof
    assume "\<exists>t. s = t @ [10] \<and> is_hhmm t"
    then obtain t where t: "s = t @ [10]" and ht: "is_hhmm t" by blast
    from ht obtain h1 h2 c m1 m2 where "t = [h1, h2, c, m1, m2]"
      by (induction t rule: is_hhmm.induct) auto
    with t have "s = h1 # h2 # c # m1 # m2 # [10]" by simp
    with False show False by blast
  qed
  with n h show ?thesis by blast
qed

text \<open>
  C6, at an input that the validation accepts although it breaks the invariant: an
  operating time whose start is \<open>09:00\<close> followed by a newline is accepted, by any
  table of digits, and the start it keeps, six characters long, is not a time of day
  \<open>HH:MM\<close>. The \<open>$\<close> of the pattern is what lets the newline through.
\<close>

theorem time_with_newline_is_accepted:
  "CenterOperatingTimeDto nd [50900] [48, 57, 58, 48, 48, 10] [49, 56, 58, 48, 48]
     = Inr \<lparr>day_of_week = [50900], start_time = [48, 57, 58, 48, 48, 10],
            end_time = [49, 56, 58, 48, 48]\<rparr> \<and>
   \<not> is_hhmm [48, 57, 58, 48, 48, 10]"
  by (simp add: CenterOperatingTimeDto_def validate_day_of_week_def validate_start_time_def
      validate_end_time_def day_values_def is_digit_def)

text \<open>
  C9. A \<open>youtube_code\<close> that starts with \<open>@\<close> passes and the validator returns
  \<open>None\<close> for it; whatever the validator returns without raising is \<open>None\<close>, so the
  field of a validated DTO, which holds the validator's result, is \<open>None\<close>. A code that
  does not start with \<open>@\<close> is refused: with the \<open>ValueError\<close> of the validator when
  it has a first character, with the \<open>IndexError\<close> of \<open>value[0]\<close> when it is empty.
\<close>

theorem youtube_code_is_dropped:
  "validate_youtube_code (Some (64 # cs)) = Inr None \<and>
   (validate_youtube_code v = Inr r \<longrightarrow> r = None) \<and>
   (c \<noteq> 64 \<longrightarrow> validate_youtube_code (Some (c # cs)) = Inl (ValueError msg_youtube_code)) \<and>
   validate_youtube_code (Some []) = Inl IndexError \<and>
   ((\<forall>t. s \<noteq> 64 # t) \<longrightarrow> (\<exists>e. validate_youtube_code (Some s) = Inl e))"
  by (cases s) (auto simp add: validate_youtube_code_def split: option.splits list.splits if_splits)

theorem youtube_code_is_dropped_witness:
  "validate_youtube_code (Some [64, 99, 108, 97, 111, 110]) = Inr None \<and>
   (99::nat) \<noteq> 64 \<and>
   validate_youtube_code (Some [99, 108, 97, 111, 110]) = Inl (ValueError msg_youtube_code) \<and>
   (\<exists>e. validate_youtube_code (Some [99, 108, 97, 111, 110]) = Inl e) \<and>
   validate_youtube_code (Some []) = Inl IndexError"
proof -
  have n: "\<forall>t. [99, 108, 97, 111, 110] \<noteq> (64::nat) # t" by simp
  from youtube_code_is_dropped
      [where cs = "[99, 108, 97, 111, 110]" and v = "Some [64, 99]" and r = None and c = 99
         and s = "[99, 108, 97, 111, 110]"]
    youtube_code_is_dropped
      [where cs = "[108, 97, 111, 110]" and v = None and r = None and c = 99
         and s = "[99, 108, 97, 111, 110]"] n
  show ?thesis by simp
qed

end
